theory Spec2Isabelle
  imports Complex_Main "HOL-Library.Sublist"
begin

section \<open>Python values, errors and keyword dictionaries\<close>

text \<open>
  The two modules pass untyped keyword overrides around (\<^verbatim>\<open>**attrs\<close>). A value is one
  of the Python objects that occur as a default or as an override: \<^verbatim>\<open>None\<close>, a bool, an
  int, a float (only carried around, never computed with), a str, a list, or an opaque
  object such as \<^verbatim>\<open>torch.bfloat16\<close>, known by its qualified name.
\<close>

datatype pyval =
    PyNone
  | PyBool bool
  | PyInt int
  | PyFloat real
  | PyStr string
  | PyList "pyval list"
  | PyObj string

text \<open>Every \<^verbatim>\<open>raise\<close> of the source, and the two builtin failures of subscripting.\<close>

datatype error =
    RuntimeError string
  | MissingDependencyError string
  | ValueError string
  | IndexError string
  | KeyError string

type_synonym attrs = "string \<rightharpoonup> pyval"

text \<open>\<^verbatim>\<open>d.pop(key, default)\<close>: the value (or the default) and the dictionary without the key.\<close>

definition pop :: "attrs \<Rightarrow> string \<Rightarrow> pyval \<Rightarrow> pyval \<times> attrs" where
  "pop d key dflt = ((case d key of None \<Rightarrow> dflt | Some v \<Rightarrow> v), d(key := None))"

text \<open>A parameter with default \<^verbatim>\<open>None\<close>: \<open>None\<close> is "not passed by the caller".\<close>

definition arg_or_None :: "pyval option \<Rightarrow> pyval" where
  "arg_or_None a = (case a of None \<Rightarrow> PyNone | Some v \<Rightarrow> v)"

section \<open>Python string operations used by the source\<close>

definition digit_char :: "nat \<Rightarrow> char" where
  "digit_char n = ''0123456789'' ! (n mod 10)"

fun str_nat :: "nat \<Rightarrow> string" where
  "str_nat n = (if n < 10 then [digit_char n] else str_nat (n div 10) @ [digit_char n])"

declare str_nat.simps [simp del]

text \<open>\<^verbatim>\<open>str(i)\<close> for an int.\<close>

definition str_int :: "int \<Rightarrow> string" where
  "str_int i = (if i < 0 then CHR ''-'' # str_nat (nat (- i)) else str_nat (nat i))"

fun join_comma :: "string list \<Rightarrow> string" where
  "join_comma [] = []"
| "join_comma [s] = s"
| "join_comma (s # t # ss) = s @ '', '' @ join_comma (t # ss)"

text \<open>\<^verbatim>\<open>str(xs)\<close> for a list of ints, as an f-string prints it: \<^verbatim>\<open>[1, 2]\<close>.\<close>

definition str_int_list :: "int list \<Rightarrow> string" where
  "str_int_list xs = ''['' @ join_comma (map str_int xs) @ '']''"

text \<open>
  \<^verbatim>\<open>template.format(**kw)\<close> for templates whose replacement fields are plain names:
  \<^verbatim>\<open>{{\<close> and \<^verbatim>\<open>}}\<close> are literal braces, \<^verbatim>\<open>{name}\<close> is replaced by \<open>kw name\<close> (the
  value is not scanned again), a name that is not a keyword is a KeyError, an empty name
  asks for a positional argument that is not there, and an unmatched brace is a
  ValueError. The second argument is the field being read, if any.
\<close>

fun format_from :: "(string \<rightharpoonup> string) \<Rightarrow> string option \<Rightarrow> string \<Rightarrow> error + string" where
  "format_from kw None [] = Inr []"
| "format_from kw (Some name) [] = Inl (ValueError ''expected '}' before end of string'')"
| "format_from kw (Some name) (c # cs) =
     (if c = CHR ''}'' then
        (if name = [] then
           Inl (IndexError ''Replacement index 0 out of range for positional args tuple'')
         else
           (case kw name of
              None \<Rightarrow> Inl (KeyError name)
            | Some v \<Rightarrow>
                (case format_from kw None cs of
                   Inl e \<Rightarrow> Inl e
                 | Inr r \<Rightarrow> Inr (v @ r))))
      else format_from kw (Some (name @ [c])) cs)"
| "format_from kw None [c] =
     (if c = CHR ''{'' then Inl (ValueError ''Single '{' encountered in format string'')
      else if c = CHR ''}'' then Inl (ValueError ''Single '}' encountered in format string'')
      else Inr [c])"
| "format_from kw None (c # d # cs) =
     (if c = CHR ''{'' then
        (if d = CHR ''{'' then
           (case format_from kw None cs of Inl e \<Rightarrow> Inl e | Inr r \<Rightarrow> Inr (CHR ''{'' # r))
         else format_from kw (Some []) (d # cs))
      else if c = CHR ''}'' then
        (if d = CHR ''}'' then
           (case format_from kw None cs of Inl e \<Rightarrow> Inl e | Inr r \<Rightarrow> Inr (CHR ''}'' # r))
         else Inl (ValueError ''Single '}' encountered in format string''))
      else
        (case format_from kw None (d # cs) of Inl e \<Rightarrow> Inl e | Inr r \<Rightarrow> Inr (c # r)))"

definition format_py :: "string \<Rightarrow> (string \<rightharpoonup> string) \<Rightarrow> error + string" where
  "format_py template kw = format_from kw None template"

section \<open>configuration\_dolly\_v2.py\<close>

definition INSTRUCTION_KEY :: string where
  "INSTRUCTION_KEY = ''### Instruction:''"

definition RESPONSE_KEY :: string where
  "RESPONSE_KEY = ''### Response:''"

definition END_KEY :: string where
  "END_KEY = ''### End''"

definition INTRO_BLURB :: string where
  "INTRO_BLURB = ''Below is an instruction that describes a task. Write a response that appropriately completes the request.''"

text \<open>
  The module-level constant is itself the result of a \<^verbatim>\<open>format\<close> call, which puts the
  placeholder \<^verbatim>\<open>{instruction}\<close> back for the second formatting.
\<close>

definition DEFAULT_PROMPT_TEMPLATE :: "error + string" where
  "DEFAULT_PROMPT_TEMPLATE =
     format_py ''{intro}\<newline>{instruction_key}\<newline>{instruction}\<newline>{response_key}\<newline>''
       [''intro'' \<mapsto> INTRO_BLURB,
        ''instruction_key'' \<mapsto> INSTRUCTION_KEY,
        ''instruction'' \<mapsto> ''{instruction}'',
        ''response_key'' \<mapsto> RESPONSE_KEY]"

text \<open>
  The tokenizer is a \<^verbatim>\<open>transformers.PreTrainedTokenizer\<close>; the source uses only its
  \<^verbatim>\<open>encode\<close> method, which is taken as given.
\<close>

record tokenizer =
  encode :: "string \<Rightarrow> int list"

definition get_special_token_id :: "tokenizer \<Rightarrow> string \<Rightarrow> error + int" where
  "get_special_token_id tok key =
     (let token_ids = encode tok key in
      if length token_ids > 1 then
        Inl (ValueError (''Expected only a single token for '' @ [CHR 0x27] @ key @ [CHR 0x27] @
                       '' but found '' @ str_int_list token_ids))
      else
        (case token_ids of
           [] \<Rightarrow> Inl (IndexError ''list index out of range'')
         | x # _ \<Rightarrow> Inr x))"

text \<open>
  Modelled from the spec: \<^verbatim>\<open>process_prompt\<close> of \<^verbatim>\<open>openllm_core._prompt\<close>, which
  the source imports and calls but which is not among the source files. The specification
  says of it: if template application is requested, the instruction is wrapped inside the
  fixed template; otherwise the instruction is passed through unchanged. Wrapping is the
  formatting of the template with the instruction as its \<^verbatim>\<open>instruction\<close> field.
\<close>

definition process_prompt :: "string \<Rightarrow> string \<Rightarrow> bool \<Rightarrow> attrs \<Rightarrow> error + string" where
  "process_prompt prompt template use_prompt_template attrs =
     (if use_prompt_template then format_py template [''instruction'' \<mapsto> prompt]
      else Inr prompt)"

text \<open>
  \<^verbatim>\<open>DollyV2Config.sanitize_parameters\<close>. The four optional parameters default to
  \<^verbatim>\<open>None\<close>; \<open>self\<close> is not read. The dictionary display lists the four named entries
  first and then unpacks \<^verbatim>\<open>**attrs\<close>, whose entries win on a common key.
\<close>

definition sanitize_parameters ::
  "string \<Rightarrow> pyval option \<Rightarrow> pyval option \<Rightarrow> pyval option \<Rightarrow> pyval option \<Rightarrow> bool \<Rightarrow> attrs
   \<Rightarrow> error + (string \<times> attrs \<times> attrs)" where
  "sanitize_parameters prompt max_new_tokens temperature top_k top_p use_default_prompt_template attrs =
     (case DEFAULT_PROMPT_TEMPLATE of
        Inl e \<Rightarrow> Inl e
      | Inr template \<Rightarrow>
          (case process_prompt prompt template use_default_prompt_template attrs of
             Inl e \<Rightarrow> Inl e
           | Inr p \<Rightarrow>
               Inr (p,
                    [''max_new_tokens'' \<mapsto> arg_or_None max_new_tokens,
                     ''top_k'' \<mapsto> arg_or_None top_k,
                     ''top_p'' \<mapsto> arg_or_None top_p,
                     ''temperature'' \<mapsto> arg_or_None temperature] ++ attrs,
                    Map.empty)))"

text \<open>
  \<^verbatim>\<open>DollyV2Config.postprocess_generate\<close>: \<^verbatim>\<open>generation_result[0]['generated_text']\<close>.
  The result is a list of dictionaries; the keyword arguments \<^verbatim>\<open>**_\<close> are accepted and
  dropped.
\<close>

definition postprocess_generate :: "string \<Rightarrow> (string \<rightharpoonup> string) list \<Rightarrow> attrs \<Rightarrow> error + string" where
  "postprocess_generate prompt generation_result kwargs =
     (case generation_result of
        [] \<Rightarrow> Inl (IndexError ''list index out of range'')
      | d # _ \<Rightarrow>
          (case d ''generated_text'' of
             None \<Rightarrow> Inl (KeyError ''generated_text'')
           | Some s \<Rightarrow> Inr s))"

section \<open>\_quantisation.py\<close>

text \<open>
  The availability checks are functions of \<^verbatim>\<open>openllm_core.utils\<close> that read what is
  installed in the process, and \<^verbatim>\<open>torch.cuda.is_available()\<close> reads the hardware: the
  five answers are the environment of a call.
\<close>

record environment =
  is_bitsandbytes_available :: bool
  is_autogptq_available :: bool
  is_optimum_supports_gptq :: bool
  is_autoawq_available :: bool
  torch_cuda_is_available :: bool

text \<open>Of \<open>self\<close>, an \<^verbatim>\<open>LLM\<close>, only \<^verbatim>\<open>model_id\<close> is read.\<close>

record llm =
  model_id :: string

text \<open>
  The three classes of \<^verbatim>\<open>transformers\<close> are constructed with keyword arguments only:
  a configuration is the class together with the keyword arguments of the call, in the
  order and under the names the source writes them.
\<close>

datatype quantisation_config =
    BitsAndBytesConfig "(string \<times> pyval) list"
  | GPTQConfig "(string \<times> pyval) list"
  | AwqConfig "(string \<times> pyval) list"

text \<open>
  The nested functions close over \<open>attrs\<close>, \<open>bits\<close>, \<open>group_size\<close>, \<open>self\<close> and the
  8-bit values; here they take them as arguments and return the dictionary they leave.
\<close>

definition create_awq_config :: "attrs \<Rightarrow> pyval \<Rightarrow> pyval \<Rightarrow> quantisation_config \<times> attrs" where
  "create_awq_config attrs0 bits group_size =
     (let (zero_point, attrs) = pop attrs0 ''zero_point'' (PyBool True)
      in (AwqConfig [(''bits'', bits), (''group_size'', group_size), (''zero_point'', zero_point)],
          attrs))"

definition create_gptq_config ::
  "environment \<Rightarrow> llm \<Rightarrow> attrs \<Rightarrow> pyval \<Rightarrow> pyval \<Rightarrow> quantisation_config \<times> attrs" where
  "create_gptq_config env self attrs0 bits group_size =
     (let (gptq_tokenizer, attrs) = pop attrs0 ''tokenizer'' (PyStr (model_id self));
          (gptq_dataset, attrs) = pop attrs ''dataset'' (PyStr ''c4'');
          (gptq_damp_percent, attrs) = pop attrs ''damp_percent'' (PyFloat (1 / 10));
          (gptq_desc_act, attrs) = pop attrs ''desc_act'' (PyBool False);
          (gptq_sym, attrs) = pop attrs ''sym'' (PyBool True);
          (gptq_true_sequential, attrs) = pop attrs ''true_sequential'' (PyBool True);
          (gptq_use_cuda_fp16, attrs) =
             pop attrs ''use_cuda_fp16''
               (if torch_cuda_is_available env then PyBool True else PyBool False);
          (gptq_model_seqlen, attrs) = pop attrs ''model_seqlen'' PyNone;
          (gptq_block_name_to_quantize, attrs) = pop attrs ''block_name_to_quantize'' PyNone;
          (gptq_module_name_preceding_first_block, attrs) =
             pop attrs ''module_name_preceding_first_block'' PyNone;
          (gptq_batch_size, attrs) = pop attrs ''batch_size'' (PyInt 1);
          (gptq_pad_token_id, attrs) = pop attrs ''pad_token_id'' PyNone;
          (gptq_disable_exllama, attrs) = pop attrs ''disable_exllama'' (PyBool False)
      in (GPTQConfig
            [(''bits'', bits),
             (''tokenizer'', gptq_tokenizer),
             (''dataset'', gptq_dataset),
             (''group_size'', group_size),
             (''damp_percent'', gptq_damp_percent),
             (''desc_act'', gptq_desc_act),
             (''sym'', gptq_sym),
             (''true_sequential'', gptq_true_sequential),
             (''use_cuda_fp16'', gptq_use_cuda_fp16),
             (''model_seqlen'', gptq_model_seqlen),
             (''block_name_to_quantize'', gptq_block_name_to_quantize),
             (''module_name_preceding_first_block'', gptq_module_name_preceding_first_block),
             (''batch_size'', gptq_batch_size),
             (''pad_token_id'', gptq_pad_token_id),
             (''disable_exllama'', gptq_disable_exllama)],
          attrs))"

definition create_int8_config :: "pyval \<Rightarrow> pyval \<Rightarrow> pyval \<Rightarrow> pyval \<Rightarrow> quantisation_config" where
  "create_int8_config int8_enable_fp32_cpu_offload int8_threshold int8_has_fp16_weight int8_skip_modules =
     BitsAndBytesConfig
       [(''load_in_8bit'', PyBool True),
        (''llm_int8_enable_fp32_cpu_offload'', int8_enable_fp32_cpu_offload),
        (''llm_int8_threshhold'', int8_threshold),
        (''llm_int8_skip_modules'', int8_skip_modules),
        (''llm_int8_has_fp16_weight'', int8_has_fp16_weight)]"

definition infer_quantisation_config ::
  "environment \<Rightarrow> llm \<Rightarrow> string \<Rightarrow> attrs \<Rightarrow> error + (quantisation_config \<times> attrs)" where
  "infer_quantisation_config env self quantise attrs0 =
     (let (int8_threshold, attrs) = pop attrs0 ''llm_int8_threshhold'' (PyFloat 6);
          (int8_enable_fp32_cpu_offload, attrs) =
             pop attrs ''llm_int8_enable_fp32_cpu_offload'' (PyBool False);
          (int8_skip_modules, attrs) = pop attrs ''llm_int8_skip_modules'' PyNone;
          (int8_has_fp16_weight, attrs) = pop attrs ''llm_int8_has_fp16_weight'' (PyBool False);
          (bits, attrs) = pop attrs ''bits'' (PyInt 4);
          (group_size, attrs) = pop attrs ''group_size'' (PyInt 128);
          (int4_compute_dtype, attrs) = pop attrs ''bnb_4bit_compute_dtype'' (PyObj ''torch.bfloat16'');
          (int4_quant_type, attrs) = pop attrs ''bnb_4bit_quant_type'' (PyStr ''nf4'');
          (int4_use_double_quant, attrs) = pop attrs ''bnb_4bit_use_double_quant'' (PyBool True)
      in
      if \<not> is_bitsandbytes_available env then
        Inl (RuntimeError
          (''Quantization requires bitsandbytes to be installed. Make sure to install OpenLLM with 'pip install \"openllm[fine-tune]\"'' @ [CHR 0x27]))
      else if quantise = ''int8'' then
        Inr (create_int8_config int8_enable_fp32_cpu_offload int8_threshold int8_has_fp16_weight
               int8_skip_modules,
             attrs)
      else if quantise = ''int4'' then
        Inr (BitsAndBytesConfig
               [(''load_in_4bit'', PyBool True),
                (''bnb_4bit_compute_dtype'', int4_compute_dtype),
                (''bnb_4bit_quant_type'', int4_quant_type),
                (''bnb_4bit_use_double_quant'', int4_use_double_quant)],
             attrs)
      else if quantise = ''gptq'' then
        (if \<not> is_autogptq_available env \<or> \<not> is_optimum_supports_gptq env then
           Inl (MissingDependencyError
             ([CHR 0x27] @ ''quantize=\"gptq\"' requires 'auto-gptq' and 'optimum>=0.12' to be installed (missing or failed to import). Make sure to do 'pip install \"openllm[gptq]\"'' @ [CHR 0x27]))
         else Inr (create_gptq_config env self attrs bits group_size))
      else if quantise = ''awq'' then
        (if \<not> is_autoawq_available env then
           Inl (MissingDependencyError
             ''quantize='awq' requires 'auto-awq' to be installed (missing or failed to import). Make sure to do 'pip install \"openllm[awq]\"'.'')
         else Inr (create_awq_config attrs bits group_size))
      else
        Inl (ValueError
          ([CHR 0x27] @ ''quantize' must be one of ['int8', 'int4', 'gptq', 'awq'], got '' @ quantise @ '' instead.'')))"

section \<open>The keys each call consumes, and sample inputs\<close>





text \<open>
  An environment with every optional backend installed and a GPU, one with none, and one
  with bitsandbytes alone; a model; three tokenizers.
\<close>

definition env_all :: environment where
  "env_all = \<lparr>is_bitsandbytes_available = True, is_autogptq_available = True,
     is_optimum_supports_gptq = True, is_autoawq_available = True,
     torch_cuda_is_available = True\<rparr>"

definition env_none :: environment where
  "env_none = \<lparr>is_bitsandbytes_available = False, is_autogptq_available = False,
     is_optimum_supports_gptq = False, is_autoawq_available = False,
     torch_cuda_is_available = False\<rparr>"

definition dolly :: llm where
  "dolly = \<lparr>model_id = ''databricks/dolly-v2-3b''\<rparr>"

definition env_bnb_only :: environment where
  "env_bnb_only = \<lparr>is_bitsandbytes_available = True, is_autogptq_available = False,
     is_optimum_supports_gptq = False, is_autoawq_available = False,
     torch_cuda_is_available = False\<rparr>"

definition tok_single :: tokenizer where
  "tok_single = \<lparr>encode = (\<lambda>s. if s = END_KEY then [50277] else [1, 2])\<rparr>"

definition tok_split :: tokenizer where
  "tok_split = \<lparr>encode = (\<lambda>s. [21017, 1423])\<rparr>"

definition tok_empty :: tokenizer where
  "tok_empty = \<lparr>encode = (\<lambda>s. [])\<rparr>"

section \<open>Special token ids\<close>

text \<open>
  Claim C8. For every tokenizer and marker: if the tokenizer encodes the marker to more
  than one id, \<open>get_special_token_id\<close> fails with a ValueError whose message names the
  marker and the ids obtained; if it encodes the marker to exactly one id, that id is
  returned.
\<close>

theorem get_special_token_id_contract:
  "(1 < length (encode tok key) \<longrightarrow>
      get_special_token_id tok key =
        Inl (ValueError (''Expected only a single token for '' @ [CHR 0x27] @ key @ [CHR 0x27] @
                         '' but found '' @ str_int_list (encode tok key)))) \<and>
   (\<forall>i. encode tok key = [i] \<longrightarrow> get_special_token_id tok key = Inr i)"
  by (simp add: get_special_token_id_def Let_def)

theorem get_special_token_id_contract_witness:
  "get_special_token_id tok_split END_KEY =
     Inl (ValueError ''Expected only a single token for '### End' but found [21017, 1423]'') \<and>
   get_special_token_id tok_single END_KEY = Inr 50277"
proof -
  have two: "1 < length (encode tok_split END_KEY)"
    by (simp add: tok_split_def)
  have one: "encode tok_single END_KEY = [50277]"
    by (simp add: tok_single_def)
  have enc: "encode tok_split END_KEY = [21017, 1423]"
    by (simp add: tok_split_def)
  have shown: "str_int_list [21017, 1423] = ''[21017, 1423]''"
    by (simp add: str_int_list_def str_int_def str_nat.simps digit_char_def)
  from get_special_token_id_contract [of tok_split END_KEY] two
  have "get_special_token_id tok_split END_KEY =
        Inl (ValueError (''Expected only a single token for '' @ [CHR 0x27] @ END_KEY @ [CHR 0x27] @
                         '' but found '' @ str_int_list (encode tok_split END_KEY)))"
    by blast
  then have a: "get_special_token_id tok_split END_KEY =
     Inl (ValueError ''Expected only a single token for '### End' but found [21017, 1423]'')"
    by (simp only: enc shown, simp add: END_KEY_def)
  from get_special_token_id_contract [of tok_single END_KEY] one
  have b: "get_special_token_id tok_single END_KEY = Inr 50277"
    by blast
  from a b show ?thesis by (rule conjI)
qed

text \<open>
  Claim C10. The ValueError guard of \<open>get_special_token_id\<close> covers exactly the encodings
  of more than one id. On an empty encoding the function fails with the IndexError of
  reading the first element, not with the ValueError, and it returns an id exactly when
  the encoding has one element: a non-empty encoding is needed for it to return.
\<close>

theorem get_special_token_id_empty_encoding:
  "(encode tok key = [] \<longrightarrow>
      get_special_token_id tok key = Inl (IndexError ''list index out of range'')) \<and>
   ((\<exists>msg. get_special_token_id tok key = Inl (ValueError msg)) \<longleftrightarrow> 1 < length (encode tok key)) \<and>
   ((\<exists>i. get_special_token_id tok key = Inr i) \<longleftrightarrow> length (encode tok key) = 1)"
  by (auto simp add: get_special_token_id_def Let_def split: list.splits)

theorem get_special_token_id_empty_encoding_witness:
  "encode tok_empty END_KEY = [] \<and>
   get_special_token_id tok_empty END_KEY = Inl (IndexError ''list index out of range'')"
proof -
  have e: "encode tok_empty END_KEY = []"
    by (simp add: tok_empty_def)
  with get_special_token_id_empty_encoding [of tok_empty END_KEY] show ?thesis
    by blast
qed

section \<open>Post-processing\<close>

text \<open>
  Claim C9. The result of \<open>postprocess_generate\<close> does not depend on the prompt (nor on the
  dropped keyword arguments): for any two prompts and the same generation result the two
  calls agree, and when the first element of the result has a \<open>generated_text\<close> field both
  return that field.
\<close>

theorem postprocess_generate_ignores_prompt:
  "postprocess_generate p1 r kw1 = postprocess_generate p2 r kw2 \<and>
   (\<forall>d rest s. r = d # rest \<and> d ''generated_text'' = Some s \<longrightarrow>
      postprocess_generate p1 r kw1 = Inr s \<and> postprocess_generate p2 r kw2 = Inr s)"
  by (simp add: postprocess_generate_def)

theorem postprocess_generate_ignores_prompt_witness:
  "postprocess_generate ''first prompt'' [[''generated_text'' \<mapsto> ''an answer'']] Map.empty =
     postprocess_generate ''second prompt'' [[''generated_text'' \<mapsto> ''an answer'']] Map.empty \<and>
   postprocess_generate ''first prompt'' [[''generated_text'' \<mapsto> ''an answer'']] Map.empty =
     Inr ''an answer''"
proof -
  have f: "[''generated_text'' \<mapsto> ''an answer''] ''generated_text'' = Some ''an answer''"
    by simp
  from postprocess_generate_ignores_prompt
    [of "''first prompt''" "[[''generated_text'' \<mapsto> ''an answer'']]" Map.empty
        "''second prompt''" Map.empty] f
  show ?thesis by blast
qed

section \<open>Prompt and generation parameters\<close>

lemma DEFAULT_PROMPT_TEMPLATE_value:
  "DEFAULT_PROMPT_TEMPLATE =
     Inr (INTRO_BLURB @ ''\<newline>'' @ INSTRUCTION_KEY @ ''\<newline>{instruction}\<newline>'' @ RESPONSE_KEY @ ''\<newline>'')"
  by (simp add: DEFAULT_PROMPT_TEMPLATE_def format_py_def INTRO_BLURB_def INSTRUCTION_KEY_def
      RESPONSE_KEY_def)

lemma process_prompt_default_template:
  "process_prompt prompt
     (INTRO_BLURB @ ''\<newline>'' @ INSTRUCTION_KEY @ ''\<newline>{instruction}\<newline>'' @ RESPONSE_KEY @ ''\<newline>'')
     use attrs =
   Inr (if use then INTRO_BLURB @ ''\<newline>'' @ INSTRUCTION_KEY @ ''\<newline>'' @ prompt @ ''\<newline>'' @
                    RESPONSE_KEY @ ''\<newline>''
        else prompt)"
  by (simp add: process_prompt_def format_py_def INTRO_BLURB_def INSTRUCTION_KEY_def
      RESPONSE_KEY_def)

text \<open>The call never fails, and this is what it returns.\<close>

lemma sanitize_parameters_value:
  "sanitize_parameters prompt max_new_tokens temperature top_k top_p use attrs =
     Inr (if use then INTRO_BLURB @ ''\<newline>'' @ INSTRUCTION_KEY @ ''\<newline>'' @ prompt @ ''\<newline>'' @
                      RESPONSE_KEY @ ''\<newline>''
          else prompt,
          [''max_new_tokens'' \<mapsto> arg_or_None max_new_tokens,
           ''top_k'' \<mapsto> arg_or_None top_k,
           ''top_p'' \<mapsto> arg_or_None top_p,
           ''temperature'' \<mapsto> arg_or_None temperature] ++ attrs,
          Map.empty)"
  unfolding sanitize_parameters_def DEFAULT_PROMPT_TEMPLATE_value
  by (simp only: process_prompt_default_template sum.case)

text \<open>
  Claim C3, as amended. For every call of \<open>sanitize_parameters\<close> (the keyword dictionary
  cannot hold the names of the four parameters, which Python binds to the parameters
  themselves), the call returns, and the generation mapping holds each of
  \<open>max_new_tokens\<close>, \<open>top_k\<close>, \<open>top_p\<close> and \<open>temperature\<close>: with the caller's value when
  one is given and with \<open>None\<close> otherwise. The key is present in both cases. Every other
  keyword override is in the mapping unchanged, and the mapping has no further key.
\<close>

theorem sanitize_parameters_generation_mapping:
  assumes "dom attrs \<inter> {''max_new_tokens'', ''top_k'', ''top_p'', ''temperature''} = {}"
  shows "\<exists>p gen. sanitize_parameters prompt max_new_tokens temperature top_k top_p use attrs
                   = Inr (p, gen, Map.empty) \<and>
           gen ''max_new_tokens'' = Some (case max_new_tokens of None \<Rightarrow> PyNone | Some v \<Rightarrow> v) \<and>
           gen ''top_k'' = Some (case top_k of None \<Rightarrow> PyNone | Some v \<Rightarrow> v) \<and>
           gen ''top_p'' = Some (case top_p of None \<Rightarrow> PyNone | Some v \<Rightarrow> v) \<and>
           gen ''temperature'' = Some (case temperature of None \<Rightarrow> PyNone | Some v \<Rightarrow> v) \<and>
           (\<forall>k v. attrs k = Some v \<longrightarrow> gen k = Some v) \<and>
           dom gen = {''max_new_tokens'', ''top_k'', ''top_p'', ''temperature''} \<union> dom attrs"
proof -
  from assms have absent: "attrs ''max_new_tokens'' = None" "attrs ''top_k'' = None"
    "attrs ''top_p'' = None" "attrs ''temperature'' = None"
    by auto
  show ?thesis
    unfolding sanitize_parameters_value
    by (auto simp add: map_add_def arg_or_None_def absent split: option.splits)
qed

theorem sanitize_parameters_generation_mapping_witness:
  "dom [''do_sample'' \<mapsto> PyBool True] \<inter> {''max_new_tokens'', ''top_k'', ''top_p'', ''temperature''} = {} \<and>
   (\<exists>p gen. sanitize_parameters ''What is a llama?'' (Some (PyInt 64)) None None None False
               [''do_sample'' \<mapsto> PyBool True] = Inr (p, gen, Map.empty) \<and>
      gen ''max_new_tokens'' = Some (PyInt 64) \<and>
      gen ''top_k'' = Some PyNone \<and>
      gen ''do_sample'' = Some (PyBool True))"
proof -
  have h: "dom [''do_sample'' \<mapsto> PyBool True] \<inter>
           {''max_new_tokens'', ''top_k'', ''top_p'', ''temperature''} = {}"
    by simp
  have "\<exists>p gen. sanitize_parameters ''What is a llama?'' (Some (PyInt 64)) None None None False
               [''do_sample'' \<mapsto> PyBool True] = Inr (p, gen, Map.empty) \<and>
      gen ''max_new_tokens'' = Some (PyInt 64) \<and>
      gen ''top_k'' = Some PyNone \<and>
      gen ''do_sample'' = Some (PyBool True)"
    using sanitize_parameters_generation_mapping
      [OF h, of "''What is a llama?''" "Some (PyInt 64)" None None None False]
    apply (elim exE conjE)
    subgoal for p gen
      apply (rule exI [of _ p])
      apply (rule exI [of _ gen])
      apply simp
      done
    done
  with h show ?thesis
    by (rule conjI)
qed

text \<open>
  Claim C3 as stated says a parameter the caller does not give is left out of the
  mapping. With no override at all, \<open>max_new_tokens\<close> is a key of the mapping, bound to
  \<open>None\<close>.
\<close>

theorem sanitize_parameters_unset_counterexample:
  "\<exists>p gen. sanitize_parameters ''What is a llama?'' None None None None True Map.empty
             = Inr (p, gen, Map.empty) \<and>
     gen ''max_new_tokens'' = Some PyNone \<and> ''max_new_tokens'' \<in> dom gen"
  by (simp add: sanitize_parameters_value arg_or_None_def)

text \<open>
  Claim C7, as amended. For every instruction, \<open>sanitize_parameters\<close> with the default
  template requested returns the prompt made of the intro sentence, a newline,
  \<open>### Instruction:\<close>, a newline, the instruction, a newline, \<open>### Response:\<close> and a final
  newline: exactly one newline stands between each marker and the instruction.
\<close>

theorem sanitize_parameters_prompt:
  "\<exists>gen ext. sanitize_parameters instruction max_new_tokens temperature top_k top_p True attrs =
     Inr (INTRO_BLURB @ ''\<newline>'' @ INSTRUCTION_KEY @ ''\<newline>'' @ instruction @ ''\<newline>'' @
            RESPONSE_KEY @ ''\<newline>'',
          gen, ext)"
  by (simp add: sanitize_parameters_value)

text \<open>
  Claim C7 as stated puts the markers immediately around the instruction. For the
  instruction \<open>hello\<close> the prompt contains neither \<open>### Instruction:hello\<close> nor
  \<open>hello### Response:\<close>: a newline separates them.
\<close>

theorem sanitize_parameters_prompt_counterexample:
  "\<exists>p gen ext. sanitize_parameters ''hello'' None None None None True Map.empty = Inr (p, gen, ext) \<and>
     \<not> sublist (INSTRUCTION_KEY @ ''hello'' @ RESPONSE_KEY) p \<and>
     \<not> sublist (INSTRUCTION_KEY @ ''hello'') p \<and>
     \<not> sublist (''hello'' @ RESPONSE_KEY) p"
  by (simp add: sanitize_parameters_value INTRO_BLURB_def INSTRUCTION_KEY_def RESPONSE_KEY_def
      sublist_Cons_right)

section \<open>Quantisation: what a call leaves of the overrides\<close>
















section \<open>Quantisation: errors and the 8-bit configuration\<close>

text \<open>
  Claim C1. For every mode (the four accepted ones and any other string) and every
  override mapping, when bitsandbytes is not available the call fails with the
  RuntimeError that asks for bitsandbytes, before the mode is looked at.
\<close>

theorem infer_quantisation_config_requires_bitsandbytes:
  assumes "\<not> is_bitsandbytes_available env"
  shows "infer_quantisation_config env self quantise attrs =
           Inl (RuntimeError (''Quantization requires bitsandbytes to be installed. Make sure to install OpenLLM with 'pip install \"openllm[fine-tune]\"'' @ [CHR 0x27]))"
  using assms by (simp add: infer_quantisation_config_def pop_def)

theorem infer_quantisation_config_requires_bitsandbytes_witness:
  "\<not> is_bitsandbytes_available env_none \<and>
   infer_quantisation_config env_none dolly ''awq'' [''bits'' \<mapsto> PyInt 8] =
     Inl (RuntimeError (''Quantization requires bitsandbytes to be installed. Make sure to install OpenLLM with 'pip install \"openllm[fine-tune]\"'' @ [CHR 0x27]))"
proof -
  have h: "\<not> is_bitsandbytes_available env_none"
    by (simp add: env_none_def)
  from h infer_quantisation_config_requires_bitsandbytes
    [OF h, of dolly "''awq''" "[''bits'' \<mapsto> PyInt 8]"]
  show ?thesis by (rule conjI)
qed

text \<open>
  Claim C4, as amended. When bitsandbytes is available, every mode outside
  \<open>int8\<close>, \<open>int4\<close>, \<open>gptq\<close>, \<open>awq\<close> raises the ValueError whose message lists exactly
  \<open>['int8', 'int4', 'gptq', 'awq']\<close> and then the mode that was given.
\<close>

theorem infer_quantisation_config_unknown_mode:
  assumes "is_bitsandbytes_available env"
    and "quantise \<notin> {''int8'', ''int4'', ''gptq'', ''awq''}"
  shows "infer_quantisation_config env self quantise attrs =
           Inl (ValueError ([CHR 0x27] @ ''quantize' must be one of ['int8', 'int4', 'gptq', 'awq'], got '' @
                            quantise @ '' instead.''))"
  using assms by (simp add: infer_quantisation_config_def pop_def)

theorem infer_quantisation_config_unknown_mode_witness:
  "is_bitsandbytes_available env_all \<and>
   ''unknown'' \<notin> {''int8'', ''int4'', ''gptq'', ''awq''} \<and>
   infer_quantisation_config env_all dolly ''unknown'' Map.empty =
     Inl (ValueError ([CHR 0x27] @ ''quantize' must be one of ['int8', 'int4', 'gptq', 'awq'], got unknown instead.''))"
proof -
  have h: "is_bitsandbytes_available env_all"
    by (simp add: env_all_def)
  have u: "''unknown'' \<notin> {''int8'', ''int4'', ''gptq'', ''awq''}"
    by simp
  from infer_quantisation_config_unknown_mode [OF h u, of dolly Map.empty]
  have "infer_quantisation_config env_all dolly ''unknown'' Map.empty =
     Inl (ValueError ([CHR 0x27] @ ''quantize' must be one of ['int8', 'int4', 'gptq', 'awq'], got unknown instead.''))"
    by simp
  with h u show ?thesis by (intro conjI)
qed

text \<open>
  Claim C4 as stated holds in every environment. Without bitsandbytes the mode
  \<open>unknown\<close> raises the RuntimeError about bitsandbytes, not a ValueError.
\<close>

theorem infer_quantisation_config_unknown_mode_counterexample:
  "''unknown'' \<notin> {''int8'', ''int4'', ''gptq'', ''awq''} \<and>
   infer_quantisation_config env_none dolly ''unknown'' Map.empty =
     Inl (RuntimeError (''Quantization requires bitsandbytes to be installed. Make sure to install OpenLLM with 'pip install \"openllm[fine-tune]\"'' @ [CHR 0x27])) \<and>
   (\<forall>msg. infer_quantisation_config env_none dolly ''unknown'' Map.empty \<noteq> Inl (ValueError msg))"
  by (simp add: infer_quantisation_config_def pop_def env_none_def)

text \<open>
  Claim C5, as amended. When bitsandbytes is available, the mode is \<open>gptq\<close> and auto-gptq
  or the GPTQ support of optimum is not available, the call raises a
  MissingDependencyError whose message names both \<open>auto-gptq\<close> and \<open>optimum\<close>.
\<close>

theorem infer_quantisation_config_gptq_missing:
  assumes "is_bitsandbytes_available env"
    and "\<not> is_autogptq_available env \<or> \<not> is_optimum_supports_gptq env"
  shows "\<exists>msg. infer_quantisation_config env self ''gptq'' attrs = Inl (MissingDependencyError msg) \<and>
           sublist ''auto-gptq'' msg \<and> sublist ''optimum'' msg"
proof -
  let ?msg = "[CHR 0x27] @ ''quantize=\"gptq\"' requires 'auto-gptq' and 'optimum>=0.12' to be installed (missing or failed to import). Make sure to do 'pip install \"openllm[gptq]\"'' @ [CHR 0x27]"
  have r: "infer_quantisation_config env self ''gptq'' attrs = Inl (MissingDependencyError ?msg)"
    using assms by (simp add: infer_quantisation_config_def pop_def)
  have a: "sublist ''auto-gptq'' ?msg"
    by (simp add: sublist_Cons_right)
  have b: "sublist ''optimum'' ?msg"
    by (simp add: sublist_Cons_right)
  from r a b show ?thesis
    by (intro exI conjI)
qed

theorem infer_quantisation_config_gptq_missing_witness:
  "is_bitsandbytes_available env_bnb_only \<and>
   \<not> is_autogptq_available env_bnb_only \<and>
   (\<exists>msg. infer_quantisation_config env_bnb_only dolly ''gptq'' Map.empty =
            Inl (MissingDependencyError msg) \<and>
          sublist ''auto-gptq'' msg \<and> sublist ''optimum'' msg)"
proof -
  have h: "is_bitsandbytes_available env_bnb_only"
    by (simp add: env_bnb_only_def)
  have g: "\<not> is_autogptq_available env_bnb_only"
    by (simp add: env_bnb_only_def)
  then have g': "\<not> is_autogptq_available env_bnb_only \<or> \<not> is_optimum_supports_gptq env_bnb_only"
    by (rule disjI1)
  from h g infer_quantisation_config_gptq_missing [OF h g', of dolly Map.empty]
  show ?thesis by (intro conjI)
qed

text \<open>
  Claim C5 as stated does not ask for bitsandbytes. With none of the backends installed,
  mode \<open>gptq\<close> raises the RuntimeError about bitsandbytes, whose message names neither
  \<open>auto-gptq\<close> nor \<open>optimum\<close>.
\<close>

theorem infer_quantisation_config_gptq_missing_counterexample:
  "\<not> is_autogptq_available env_none \<and>
   (\<exists>msg. infer_quantisation_config env_none dolly ''gptq'' Map.empty = Inl (RuntimeError msg) \<and>
          \<not> sublist ''auto-gptq'' msg \<and> \<not> sublist ''optimum'' msg)"
  by (simp add: infer_quantisation_config_def pop_def env_none_def sublist_Cons_right)




end
